theory Spec2Isabelle
  imports Main
begin

section \<open>The Yellfront OAuth relay (server.js)\<close>

text \<open>
  The server keeps one piece of state, the JavaScript \<open>Map\<close> \<open>pendingStates\<close>, and
  three request handlers and one timer callback act on it. Each handler is embedded as a
  function from the request and the cache before it to the response and the cache after
  it. The identity provider (the googleapis client) and the built-in
  \<open>encodeURIComponent\<close> are not code of this server: they are parameters of the model.
  The rate limiter and helmet run before a handler is reached and are outside the model,
  as is what the handlers write to the console.
\<close>

subsection \<open>JavaScript values\<close>

text \<open>
  A value of \<open>req.query\<close>, as the query parser of Express builds it: a string, an array
  (\<open>?a=1&a=2\<close>) or an object (\<open>?a[k]=1\<close>). A parameter that the query does not name
  reads as \<open>undefined\<close>, here \<open>None\<close>; \<open>?a=\<close> reads as the empty string.
\<close>

datatype qval = QStr string | QArr "qval list" | QObj "(string \<times> qval) list"

type_synonym param = "qval option"

text \<open>Truthiness, as \<open>if (v)\<close>, \<open>!v\<close> and \<open>v || w\<close> test it.\<close>

fun truthy :: "qval \<Rightarrow> bool" where
  "truthy (QStr s) = (s \<noteq> [])"
| "truthy (QArr xs) = True"
| "truthy (QObj kvs) = True"

fun truthy_param :: "param \<Rightarrow> bool" where
  "truthy_param None = False"
| "truthy_param (Some v) = truthy v"

text \<open>
  String conversion, as a template literal \<open>`${v}`\<close> performs it; \<open>None\<close> is the
  \<open>TypeError\<close> it can throw. The parser lets a query name any key of an object
  (\<open>?a[toString]=x\<close>), and the value under it is a string, an array or an object, never
  a function. An object with a key \<open>toString\<close> of its own therefore has no callable
  \<open>toString\<close>, and its \<open>valueOf\<close> is either a key of its own, not callable, or the
  inherited one, which returns the object: the conversion throws. An object without that
  key converts by the inherited \<open>toString\<close>. An array converts by joining the
  conversions of its elements with commas, and throws when one of them throws.
\<close>

fun join_comma :: "string list \<Rightarrow> string" where
  "join_comma [] = []"
| "join_comma [s] = s"
| "join_comma (s # t # ss) = s @ '','' @ join_comma (t # ss)"

fun to_string :: "qval \<Rightarrow> string option" where
  "to_string (QStr s) = Some s"
| "to_string (QArr xs) = map_option join_comma (those (map to_string xs))"
| "to_string (QObj kvs) =
     (if ''toString'' \<in> set (map fst kvs) then None else Some ''[object Object]'')"

fun to_string_param :: "param \<Rightarrow> string option" where
  "to_string_param None = Some ''undefined''"
| "to_string_param (Some v) = to_string v"

text \<open>
  \<open>v.includes('?')\<close>: a substring test on a string, a membership test on an array, and
  a \<open>TypeError\<close> (here \<open>None\<close>) on an object, which has no callable \<open>includes\<close>
  (a key \<open>includes\<close> of its own holds no function).
\<close>

fun includes_qmark :: "qval \<Rightarrow> bool option" where
  "includes_qmark (QStr s) = Some (CHR ''?'' \<in> set s)"
| "includes_qmark (QArr xs) = Some (QStr ''?'' \<in> set xs)"
| "includes_qmark (QObj kvs) = None"

text \<open>
  Values that come from a JSON request body or from the provider, and the objects handed
  to \<open>res.json\<close>. Numbers are the integers that occur here (millisecond time stamps).
\<close>

datatype jsval =
    JUndefined
  | JNull
  | JBoolean bool
  | JNumber int
  | JString string
  | JArray "jsval list"
  | JObject "(string \<times> jsval) list"

fun truthy_js :: "jsval \<Rightarrow> bool" where
  "truthy_js JUndefined = False"
| "truthy_js JNull = False"
| "truthy_js (JBoolean b) = b"
| "truthy_js (JNumber n) = (n \<noteq> 0)"
| "truthy_js (JString s) = (s \<noteq> [])"
| "truthy_js (JArray xs) = True"
| "truthy_js (JObject kvs) = True"

subsection \<open>Requests, responses, environment, provider\<close>

record request =
  query :: "string \<Rightarrow> param"
  body :: "string \<Rightarrow> jsval"
  ip :: string

type_synonym exn = string

text \<open>
  \<open>res.status(n).json(v)\<close> is \<open>Json n v\<close> (\<open>res.json(v)\<close> alone has status 200);
  \<open>res.redirect(url)\<close> is \<open>Redirect 302 url\<close>. \<open>Uncaught e\<close> is a handler that threw
  \<open>e\<close> outside any \<open>try\<close>: it has sent no response.
\<close>

datatype response = Json nat jsval | Redirect nat string | Uncaught exn


record auth_opts =
  opt_access_type :: string
  opt_scope :: "string list"
  opt_state :: string
  opt_prompt :: string

record tokens =
  access_token :: jsval
  refresh_token :: jsval
  expiry_date :: jsval

record userinfo =
  email :: jsval
  name :: jsval
  picture :: jsval

text \<open>
  The calls the server makes on the OAuth2 client, each either returning or throwing
  (\<open>Inl\<close>), and \<open>encodeURIComponent\<close>, which throws on a malformed string.
\<close>

record provider =
  generateAuthUrl :: "auth_opts \<Rightarrow> string"
  getToken :: "param \<Rightarrow> exn + tokens"
  userinfo_get :: "tokens \<Rightarrow> exn + userinfo"
  refreshAccessToken :: "jsval \<Rightarrow> exn + tokens"
  encodeURIComponent :: "jsval \<Rightarrow> exn + string"


subsection \<open>The pending-state cache\<close>

text \<open>
  The value stored under a state token: \<open>{created, returnUrl, ip}\<close>. \<open>returnUrl\<close> is
  whatever value the expression \<open>req.query.return_url || ... || '/'\<close> yields, so it may
  be an array or an object.
\<close>

record pending =
  created :: int
  returnUrl :: qval
  ip :: string

text \<open>
  A JavaScript \<open>Map\<close> with string keys, as the list of its entries in insertion order.
  \<open>Map_set\<close> replaces the value of a key that is present, where it stands, and appends
  a new key; \<open>Map_delete\<close> removes the key; \<open>Map_get\<close> is \<open>undefined\<close> (\<open>None\<close>) for a
  key that is not present. The keys of a \<open>Map\<close> are distinct: \<open>wf_Map\<close>. Time stamps
  are the integers of \<open>Date.now()\<close>, milliseconds, on which the subtraction of the
  sweep is exact.
\<close>

type_synonym cache = "(string \<times> pending) list"

fun Map_get :: "cache \<Rightarrow> string \<Rightarrow> pending option" where
  "Map_get [] k = None"
| "Map_get ((k', v) # m) k = (if k' = k then Some v else Map_get m k)"

fun Map_set :: "string \<Rightarrow> pending \<Rightarrow> cache \<Rightarrow> cache" where
  "Map_set k v [] = [(k, v)]"
| "Map_set k v ((k', v') # m) = (if k' = k then (k, v) # m else (k', v') # Map_set k v m)"

fun Map_delete :: "string \<Rightarrow> cache \<Rightarrow> cache" where
  "Map_delete k [] = []"
| "Map_delete k ((k', v) # m) = (if k' = k then Map_delete k m else (k', v) # Map_delete k m)"

definition wf_Map :: "cache \<Rightarrow> bool" where
  "wf_Map m = distinct (map fst m)"

text \<open>
  The timer callback (lines 40 to 47): it walks the entries of the map and deletes each
  whose age is above ten minutes. \<open>sweep_loop\<close> is the \<open>for\<close> loop, over the entries
  still to visit and the map as it stands; \<open>now\<close> is what \<open>Date.now()\<close> returned.
  The loop deletes only the entry it is visiting, so the entries it visits are those the
  map held when the loop began.
\<close>

definition expired :: "int \<Rightarrow> pending \<Rightarrow> bool" where
  "expired now data = (now - created data > 10 * 60 * 1000)"

fun sweep_loop :: "int \<Rightarrow> (string \<times> pending) list \<Rightarrow> cache \<Rightarrow> cache" where
  "sweep_loop now [] m = m"
| "sweep_loop now ((state, data) # rest) m =
     sweep_loop now rest (if expired now data then Map_delete state m else m)"

definition sweep :: "int \<Rightarrow> cache \<Rightarrow> cache" where
  "sweep now m = sweep_loop now m m"

text \<open>
  The store of the auth handler (lines 77 to 81), and the lookup and removal of the
  callback handler (lines 111 to 118): \<open>None\<close> is the outcome that the specification
  calls \<open>NotFound\<close>, and it leaves the map as it was.
\<close>

definition begin_flow :: "string \<Rightarrow> int \<Rightarrow> qval \<Rightarrow> string \<Rightarrow> cache \<Rightarrow> cache" where
  "begin_flow token now url addr m =
     Map_set token \<lparr>created = now, returnUrl = url, ip = addr\<rparr> m"

definition consume :: "string \<Rightarrow> cache \<Rightarrow> pending option \<times> cache" where
  "consume token m =
     (case Map_get m token of
        None \<Rightarrow> (None, m)
      | Some pendingState \<Rightarrow> (Some pendingState, Map_delete token m))"

subsection \<open>The handlers\<close>

text \<open>\<open>a || b\<close> where \<open>b\<close> is known to be a value: the first operand if it is truthy.\<close>

definition js_or :: "param \<Rightarrow> qval \<Rightarrow> qval" where
  "js_or a b = (case a of None \<Rightarrow> b | Some v \<Rightarrow> if truthy v then v else b)"

definition error_body :: "string \<Rightarrow> jsval" where
  "error_body msg = JObject [(''error'', JString msg)]"


text \<open>
  The \<open>try\<close> block of the callback handler (lines 120 to 164). Every exception inside
  it (a rejected provider call, the \<open>TypeError\<close> of \<open>includes\<close> on an object or of the
  string conversion of the return URL, a throwing \<open>encodeURIComponent\<close>) reaches the one
  \<open>catch\<close>.
\<close>

definition exchange_failed :: response where
  "exchange_failed = Json 500 (error_body ''Failed to exchange authorization code'')"

definition try_exchange :: "provider \<Rightarrow> request \<Rightarrow> pending \<Rightarrow> response" where
  "try_exchange P req pendingState =
     (case getToken P (query req ''code'') of
        Inl err \<Rightarrow> exchange_failed
      | Inr toks \<Rightarrow>
         (case userinfo_get P toks of
            Inl err \<Rightarrow> exchange_failed
          | Inr userInfo \<Rightarrow>
             if query req ''format'' = Some (QStr ''json'') then
               Json 200 (JObject
                 [(''success'', JBoolean True),
                  (''user'', JObject
                     [(''email'', email userInfo),
                      (''name'', name userInfo),
                      (''picture'', picture userInfo)]),
                  (''tokens'', JObject
                     [(''access_token'', access_token toks),
                      (''refresh_token'', refresh_token toks),
                      (''expiry_date'', expiry_date toks)])])
             else
               (let url = js_or (Some (returnUrl pendingState)) (QStr ''/'') in
                case includes_qmark url of
                  None \<Rightarrow> exchange_failed
                | Some has_qmark \<Rightarrow>
                   (let separator = (if has_qmark then ''&'' else ''?'') in
                    case to_string url of
                      None \<Rightarrow> exchange_failed
                    | Some url_text \<Rightarrow>
                       (case encodeURIComponent P (email userInfo) of
                          Inl err \<Rightarrow> exchange_failed
                        | Inr enc \<Rightarrow>
                           Redirect 302
                             (url_text @ separator @ ''auth=success&email='' @ enc))))))"

text \<open>
  \<open>GET /precombopulator/yellfront\<close> (lines 95 to 165). The template literal of line 101
  stands outside the \<open>try\<close>: when the string conversion of \<open>error\<close> throws, the handler
  throws and sends nothing. A \<open>state\<close> that is not a string is an array or object that
  the query parser has just built; it is no key of the map, so \<open>pendingStates.get\<close> is
  \<open>undefined\<close> for it.
\<close>

definition invalid_state :: response where
  "invalid_state = Json 400 (error_body ''Invalid or expired state. Please try again.'')"

definition yellfront_handler :: "provider \<Rightarrow> request \<Rightarrow> cache \<Rightarrow> response \<times> cache" where
  "yellfront_handler P req m =
     (let code = query req ''code'';
          state = query req ''state'';
          error = query req ''error''
      in
        if truthy_param error then
          (case to_string_param error of
             None \<Rightarrow> (Uncaught ''TypeError'', m)
           | Some error_text \<Rightarrow>
               (Json 400 (error_body (''Google OAuth error: '' @ error_text)), m))
        else if \<not> truthy_param code \<or> \<not> truthy_param state then
          (Json 400 (error_body ''Missing required parameters''), m)
        else
          (case state of
             Some (QStr token) \<Rightarrow>
               (case consume token m of
                  (None, m') \<Rightarrow> (invalid_state, m')
                | (Some pendingState, m') \<Rightarrow> (try_exchange P req pendingState, m'))
           | _ \<Rightarrow> (invalid_state, m)))"

text \<open>\<open>POST /precombopulator/refresh\<close> (lines 168 to 189); it does not touch the map.\<close>

definition refresh_handler :: "provider \<Rightarrow> request \<Rightarrow> response" where
  "refresh_handler P req =
     (let tok = body req ''refresh_token'' in
        if \<not> truthy_js tok then Json 400 (error_body ''Missing refresh_token'')
        else
          (case refreshAccessToken P tok of
             Inl err \<Rightarrow> Json 401 (error_body ''Failed to refresh token'')
           | Inr credentials \<Rightarrow>
               Json 200 (JObject
                 [(''access_token'', access_token credentials),
                  (''expiry_date'', expiry_date credentials)])))"

subsection \<open>Runs of the server\<close>

text \<open>
  What acts on the map, in the order the event loop runs it: a store by the auth handler,
  a lookup and removal by the callback handler, a tick of the timer. A store takes the
  token as \<open>uuidv4\<close> returned it: the handler does not look it up in the map first, so
  a run may store under a token that is a key already.
\<close>

datatype event = Begin string int qval string | Consume string | Sweep int

fun apply_event :: "event \<Rightarrow> cache \<Rightarrow> cache" where
  "apply_event (Begin token now url addr) m = begin_flow token now url addr m"
| "apply_event (Consume token) m = snd (consume token m)"
| "apply_event (Sweep now) m = sweep now m"

fun run :: "cache \<Rightarrow> event list \<Rightarrow> cache" where
  "run m [] = m"
| "run m (e # es) = run (apply_event e m) es"

subsection \<open>Auxiliary definitions and example inputs\<close>

text \<open>
  The keys of the entries that a sweep at \<open>now\<close> finds expired, and concrete requests,
  providers and records on which the theorems below are evaluated.
\<close>

definition expired_keys :: "int \<Rightarrow> cache \<Rightarrow> string set" where
  "expired_keys now es = fst ` set (filter (\<lambda>e. expired now (snd e)) es)"

definition example_request :: "(string \<times> qval) list \<Rightarrow> request" where
  "example_request q = \<lparr>query = map_of q, body = (\<lambda>k. JUndefined), ip = ''203.0.113.7''\<rparr>"

definition example_post :: "(string \<times> jsval) list \<Rightarrow> request" where
  "example_post b =
     \<lparr>query = (\<lambda>k. None),
      body = (\<lambda>k. case map_of b k of None \<Rightarrow> JUndefined | Some v \<Rightarrow> v),
      ip = ''203.0.113.7''\<rparr>"

definition example_tokens :: tokens where
  "example_tokens =
     \<lparr>access_token = JString ''ya29.a0'', refresh_token = JString ''1//0g'',
      expiry_date = JNumber 1700003600000\<rparr>"

definition example_provider :: "bool \<Rightarrow> provider" where
  "example_provider ok =
     \<lparr>generateAuthUrl = (\<lambda>opts. ''https://accounts.google.com/o/oauth2/v2/auth?state='' @ opt_state opts),
      getToken = (\<lambda>c. if ok then Inr example_tokens else Inl ''invalid_grant''),
      userinfo_get = (\<lambda>t. Inr \<lparr>email = JString ''a@b.c'', name = JString ''A'', picture = JNull\<rparr>),
      refreshAccessToken = (\<lambda>t. if ok then Inr example_tokens else Inl ''invalid_grant''),
      encodeURIComponent = (\<lambda>v. Inr ''a%40b.c'')\<rparr>"

definition example_pending :: "int \<Rightarrow> pending" where
  "example_pending t0 = \<lparr>created = t0, returnUrl = QStr ''https://app.example/dash'', ip = ''1.2.3.4''\<rparr>"

section \<open>Properties\<close>

subsection \<open>The map operations\<close>


lemma Map_delete_filter: "Map_delete k m = filter (\<lambda>e. fst e \<noteq> k) m"
  by (induction m) auto

lemma Map_get_filter_keys:
  "Map_get (filter (\<lambda>e. fst e \<notin> K) m) k = (if k \<in> K then None else Map_get m k)"
  by (induction m) auto

lemma Map_get_delete: "Map_get (Map_delete k m) k' = (if k' = k then None else Map_get m k')"
  using Map_get_filter_keys [of "{k}" m k'] by (simp add: Map_delete_filter)

lemma Map_get_None_iff: "Map_get m k = None \<longleftrightarrow> k \<notin> fst ` set m"
  by (induction m) force+

lemma Map_get_Some_mem: "Map_get m k = Some v \<Longrightarrow> (k, v) \<in> set m"
  by (induction m) (auto split: if_splits)

lemma mem_Map_get_Some: "distinct (map fst m) \<Longrightarrow> (k, v) \<in> set m \<Longrightarrow> Map_get m k = Some v"
  by (induction m) force+


lemma sweep_loop_filter:
  "sweep_loop now es m = filter (\<lambda>e. fst e \<notin> expired_keys now es) m"
proof (induction es arbitrary: m)
  case Nil
  show ?case by (simp add: expired_keys_def)
next
  case (Cons x es)
  obtain k d where x: "x = (k, d)" by (cases x)
  show ?case
  proof (cases "expired now d")
    case True
    then have "expired_keys now (x # es) = insert k (expired_keys now es)"
      by (auto simp: expired_keys_def x)
    with True show ?thesis
      by (simp add: x Cons.IH Map_delete_filter conj_commute)
  next
    case False
    then have "expired_keys now (x # es) = expired_keys now es"
      by (auto simp: expired_keys_def x)
    with False show ?thesis
      by (simp add: x Cons.IH)
  qed
qed

lemma sweep_filter: "sweep now m = filter (\<lambda>e. fst e \<notin> expired_keys now m) m"
  by (simp add: sweep_def sweep_loop_filter)

lemma expired_keys_sweep: "expired_keys now (sweep now m) = {}"
proof -
  have "\<not> expired now (snd e)" if "e \<in> set (sweep now m)" for e
  proof
    assume "expired now (snd e)"
    moreover from that have "e \<in> set m" by (simp add: sweep_filter)
    ultimately have "fst e \<in> expired_keys now m" by (simp add: expired_keys_def)
    with that show False by (simp add: sweep_filter)
  qed
  then show ?thesis by (simp add: expired_keys_def filter_empty_conv)
qed

lemma sweep_idem: "sweep now (sweep now m) = sweep now m"
proof -
  have "sweep now (sweep now m) = filter (\<lambda>e. fst e \<notin> expired_keys now (sweep now m)) (sweep now m)"
    by (rule sweep_filter)
  also have "\<dots> = sweep now m"
    by (simp add: expired_keys_sweep)
  finally show ?thesis .
qed






lemma expired_keys_iff:
  assumes "wf_Map m"
  shows "k \<in> expired_keys now m \<longleftrightarrow> (\<exists>d. Map_get m k = Some d \<and> expired now d)"
proof
  assume "k \<in> expired_keys now m"
  then obtain d where "(k, d) \<in> set m" "expired now d"
    by (auto simp: expired_keys_def)
  with assms show "\<exists>d. Map_get m k = Some d \<and> expired now d"
    by (auto simp: wf_Map_def dest: mem_Map_get_Some)
next
  assume "\<exists>d. Map_get m k = Some d \<and> expired now d"
  then obtain d where "(k, d) \<in> set m" "expired now d"
    by (auto dest: Map_get_Some_mem)
  then have "(k, d) \<in> set (filter (\<lambda>e. expired now (snd e)) m)" by simp
  then show "k \<in> expired_keys now m"
    unfolding expired_keys_def by (rule rev_image_eqI) simp
qed

lemma Map_get_sweep:
  "wf_Map m \<Longrightarrow> Map_get (sweep now m) k =
     (case Map_get m k of None \<Rightarrow> None | Some d \<Rightarrow> if expired now d then None else Some d)"
proof -
  assume wf: "wf_Map m"
  have "Map_get (sweep now m) k = (if k \<in> expired_keys now m then None else Map_get m k)"
    unfolding sweep_filter by (rule Map_get_filter_keys)
  also have "\<dots> = (case Map_get m k of None \<Rightarrow> None
                      | Some d \<Rightarrow> if expired now d then None else Some d)"
    by (auto simp: expired_keys_iff [OF wf] split: option.splits)
  finally show ?thesis .
qed

lemma sweep_filter_expired:
  assumes "wf_Map m"
  shows "sweep now m = filter (\<lambda>e. \<not> expired now (snd e)) m"
proof -
  have "fst e \<notin> expired_keys now m \<longleftrightarrow> \<not> expired now (snd e)" if "e \<in> set m" for e
  proof -
    from that assms have "Map_get m (fst e) = Some (snd e)"
      by (simp add: wf_Map_def mem_Map_get_Some)
    then show ?thesis by (simp add: expired_keys_iff [OF assms])
  qed
  then show ?thesis unfolding sweep_filter by (intro filter_cong refl)
qed

subsection \<open>Lookup and removal, and the callback handler up to the lookup\<close>

lemma consume_absent: "Map_get m t = None \<Longrightarrow> consume t m = (None, m)"
  by (simp add: consume_def)

lemma consume_present:
  "Map_get m t = Some p \<Longrightarrow> consume t m = (Some p, Map_delete t m)"
  by (simp add: consume_def)

lemma Map_get_after_consume: "Map_get (snd (consume t m)) t = None"
  by (simp add: consume_def Map_get_delete split: option.splits)

lemma yellfront_reaches_lookup:
  assumes "\<not> truthy_param (query req ''error'')"
    and "truthy_param (query req ''code'')"
    and "query req ''state'' = Some (QStr t)" and "t \<noteq> []"
  shows "yellfront_handler P req m =
     (case consume t m of
        (None, m') \<Rightarrow> (invalid_state, m')
      | (Some pendingState, m') \<Rightarrow> (try_exchange P req pendingState, m'))"
  using assms by (simp add: yellfront_handler_def)

lemma yellfront_absent:
  assumes "\<not> truthy_param (query req ''error'')"
    and "truthy_param (query req ''code'')"
    and "query req ''state'' = Some (QStr t)" and "t \<noteq> []"
    and "Map_get m t = None"
  shows "yellfront_handler P req m =
     (Json 400 (JObject [(''error'', JString ''Invalid or expired state. Please try again.'')]), m)"
  using assms
  by (simp add: yellfront_reaches_lookup consume_absent invalid_state_def error_body_def)

subsection \<open>Runs: the keys stay distinct\<close>

text \<open>
  Every operation keeps the keys distinct, so every map that a run reaches from the empty
  one is a map in the sense of \<open>wf_Map\<close>.
\<close>

lemma run_append: "run m (es @ fs) = run (run m es) fs"
  by (induction es arbitrary: m) auto





subsection \<open>Store, then look up and remove\<close>



subsection \<open>The sweep\<close>

text \<open>
  Claim C2. On a map (distinct keys) the sweep at time \<open>now\<close> keeps exactly the entries
  whose age \<open>now - created\<close> is not above \<open>10 * 60 * 1000\<close> milliseconds, in their
  order: a record older than that is gone, and a lookup and removal of its token finds
  nothing; a record that is not older is still there; and no record appears.
\<close>

theorem sweep_removes_exactly_expired:
  assumes "wf_Map m"
  shows "sweep now m = filter (\<lambda>(t, d). \<not> now - created d > 10 * 60 * 1000) m
    \<and> (Map_get m t = Some d \<longrightarrow>
          (if now - created d > 10 * 60 * 1000
           then Map_get (sweep now m) t = None \<and> consume t (sweep now m) = (None, sweep now m)
           else Map_get (sweep now m) t = Some d))
    \<and> (Map_get m t = None \<longrightarrow> Map_get (sweep now m) t = None)"
proof -
  have "sweep now m = filter (\<lambda>(t, d). \<not> now - created d > 10 * 60 * 1000) m"
    using sweep_filter_expired [OF assms, of now]
    by (simp add: expired_def case_prod_unfold)
  moreover have "Map_get (sweep now m) t =
      (case Map_get m t of None \<Rightarrow> None
       | Some d \<Rightarrow> if now - created d > 10 * 60 * 1000 then None else Some d)"
    using Map_get_sweep [OF assms, of now t] unfolding expired_def by simp
  ultimately show ?thesis
    by (simp add: consume_def)
qed

theorem sweep_removes_exactly_expired_witness:
  "wf_Map [(''a'', example_pending 0), (''b'', example_pending 60000)]
   \<and> sweep 660000 [(''a'', example_pending 0), (''b'', example_pending 60000)] =
       [(''b'', example_pending 60000)]
   \<and> Map_get [(''a'', example_pending 0), (''b'', example_pending 60000)] ''a'' = Some (example_pending 0)
   \<and> consume ''a'' (sweep 660000 [(''a'', example_pending 0), (''b'', example_pending 60000)]) =
       (None, [(''b'', example_pending 60000)])
   \<and> Map_get (sweep 660000 [(''a'', example_pending 0), (''b'', example_pending 60000)]) ''b'' =
       Some (example_pending 60000)
   \<and> Map_get (sweep 660000 [(''a'', example_pending 0), (''b'', example_pending 60000)]) ''c'' = None"
proof -
  have wf: "wf_Map [(''a'', example_pending 0), (''b'', example_pending 60000)]"
    by (simp add: wf_Map_def)
  show ?thesis
    using wf
      sweep_removes_exactly_expired [OF wf, of 660000 "''a''" "example_pending 0"]
      sweep_removes_exactly_expired [OF wf, of 660000 "''b''" "example_pending 60000"]
      sweep_removes_exactly_expired [OF wf, of 660000 "''c''"]
    by (simp add: example_pending_def consume_def)
qed

text \<open>
  Claim C5. Sweeping a map that has just been swept at the same time changes nothing.
\<close>

theorem sweep_idempotent: "sweep now (sweep now m) = sweep now m"
  by (rule sweep_idem)

theorem sweep_idempotent_witness:
  "sweep 660000 (sweep 660000 [(''a'', example_pending 0), (''b'', example_pending 60000)]) =
     [(''b'', example_pending 60000)]"
  using sweep_idempotent [of 660000 "[(''a'', example_pending 0), (''b'', example_pending 60000)]"]
  by (simp add: sweep_def expired_def example_pending_def)

subsection \<open>The auth handler\<close>







subsection \<open>The callback handler\<close>

text \<open>
  The handler changes the map before its first \<open>await\<close>, so its effect on the map is
  one step, whatever runs while the provider is awaited.
\<close>

text \<open>
  Claim C3. A callback with a truthy \<open>code\<close>, a \<open>state\<close> that names a live record and
  no truthy \<open>error\<close> (the exchange is attempted only then), whose token exchange throws,
  is answered with 500 and \<open>{error: 'Failed to exchange authorization code'}\<close>, and the
  record is gone: a lookup and removal of the same token finds nothing, and the same
  callback again is answered 400, invalid or expired state. The token is not empty, as
  no token of \<open>uuidv4\<close> is: an empty \<open>state\<close> counts as missing.
\<close>

theorem failed_exchange_consumes_state:
  assumes "truthy_param (query req ''code'')"
    and "query req ''state'' = Some (QStr t)" and "t \<noteq> []"
    and "Map_get m t = Some p"
    and "\<not> truthy_param (query req ''error'')"
    and "getToken P (query req ''code'') = Inl err"
  shows "yellfront_handler P req m =
      (Json 500 (JObject [(''error'', JString ''Failed to exchange authorization code'')]),
       Map_delete t m)
    \<and> consume t (Map_delete t m) = (None, Map_delete t m)
    \<and> yellfront_handler P req (Map_delete t m) =
      (Json 400 (JObject [(''error'', JString ''Invalid or expired state. Please try again.'')]),
       Map_delete t m)"
proof -
  have gone: "Map_get (Map_delete t m) t = None"
    by (simp add: Map_get_delete)
  have "yellfront_handler P req m = (try_exchange P req p, Map_delete t m)"
    using assms by (simp add: yellfront_reaches_lookup consume_present)
  moreover have "try_exchange P req p =
      Json 500 (JObject [(''error'', JString ''Failed to exchange authorization code'')])"
    using assms(6) by (simp add: try_exchange_def exchange_failed_def error_body_def)
  moreover have "consume t (Map_delete t m) = (None, Map_delete t m)"
    using gone by (rule consume_absent)
  moreover have "yellfront_handler P req (Map_delete t m) =
      (Json 400 (JObject [(''error'', JString ''Invalid or expired state. Please try again.'')]),
       Map_delete t m)"
    using assms(5,1,2,3) gone by (rule yellfront_absent)
  ultimately show ?thesis by simp
qed

theorem failed_exchange_consumes_state_witness:
  "yellfront_handler (example_provider False)
     (example_request [(''code'', QStr ''4/0Ab''), (''state'', QStr ''T'')])
     [(''T'', example_pending 0)] =
     (Json 500 (JObject [(''error'', JString ''Failed to exchange authorization code'')]), [])
   \<and> consume ''T'' [] = (None, [])
   \<and> yellfront_handler (example_provider False)
     (example_request [(''code'', QStr ''4/0Ab''), (''state'', QStr ''T'')]) [] =
     (Json 400 (JObject [(''error'', JString ''Invalid or expired state. Please try again.'')]), [])"
  using failed_exchange_consumes_state
    [of "example_request [(''code'', QStr ''4/0Ab''), (''state'', QStr ''T'')]" "''T''"
        "[(''T'', example_pending 0)]" "example_pending 0" "example_provider False" "''invalid_grant''"]
  by (simp add: example_request_def example_provider_def)

text \<open>
  Claim C4. For a callback that passes the parameter checks, a token that was never
  stored, one that has been looked up and removed, and one that a sweep has removed all
  give the same outcome of the lookup (nothing, and the map unchanged) and the same
  response: 400 with \<open>{error: 'Invalid or expired state. Please try again.'}\<close>.
\<close>

theorem absent_state_indistinguishable:
  assumes "truthy_param (query req ''code'')"
    and "query req ''state'' = Some (QStr t)" and "t \<noteq> []"
    and "\<not> truthy_param (query req ''error'')"
    and never_issued: "Map_get m1 t = None"
    and swept: "wf_Map m3" "Map_get m3 t = Some d" "now - created d > 10 * 60 * 1000"
  shows "consume t m1 = (None, m1)
    \<and> consume t (snd (consume t m2)) = (None, snd (consume t m2))
    \<and> consume t (sweep now m3) = (None, sweep now m3)
    \<and> fst (yellfront_handler P req m1) =
        Json 400 (JObject [(''error'', JString ''Invalid or expired state. Please try again.'')])
    \<and> fst (yellfront_handler P req (snd (consume t m2))) = fst (yellfront_handler P req m1)
    \<and> fst (yellfront_handler P req (sweep now m3)) = fst (yellfront_handler P req m1)"
proof -
  have a2: "Map_get (snd (consume t m2)) t = None"
    by (rule Map_get_after_consume)
  have a3: "Map_get (sweep now m3) t = None"
    using swept by (simp add: Map_get_sweep expired_def)
  note y = yellfront_absent [OF assms(4,1,2,3)]
  show ?thesis
    by (simp add: consume_absent never_issued a2 a3 y)
qed

theorem absent_state_indistinguishable_witness:
  "consume ''T'' [] = (None, [])
   \<and> consume ''T'' (snd (consume ''T'' [(''T'', example_pending 0)])) = (None, [])
   \<and> consume ''T'' (sweep 660000 [(''T'', example_pending 0)]) = (None, [])
   \<and> fst (yellfront_handler (example_provider True)
        (example_request [(''code'', QStr ''4/0Ab''), (''state'', QStr ''T'')]) []) =
      Json 400 (JObject [(''error'', JString ''Invalid or expired state. Please try again.'')])
   \<and> fst (yellfront_handler (example_provider True)
        (example_request [(''code'', QStr ''4/0Ab''), (''state'', QStr ''T'')])
        (snd (consume ''T'' [(''T'', example_pending 0)]))) =
      Json 400 (JObject [(''error'', JString ''Invalid or expired state. Please try again.'')])
   \<and> fst (yellfront_handler (example_provider True)
        (example_request [(''code'', QStr ''4/0Ab''), (''state'', QStr ''T'')])
        (sweep 660000 [(''T'', example_pending 0)])) =
      Json 400 (JObject [(''error'', JString ''Invalid or expired state. Please try again.'')])"
  using absent_state_indistinguishable
    [of "example_request [(''code'', QStr ''4/0Ab''), (''state'', QStr ''T'')]" "''T''"
        "[]" "[(''T'', example_pending 0)]" "example_pending 0" 660000
        "[(''T'', example_pending 0)]" "example_provider True"]
  by (simp add: example_request_def example_pending_def wf_Map_def consume_def sweep_def expired_def)

text \<open>
  Claim C8. A callback whose query has no \<open>code\<close> or no \<open>state\<close>, and no \<open>error\<close>, is
  answered 400 with \<open>{error: 'Missing required parameters'}\<close>, and the map is unchanged.
\<close>

theorem missing_params_400:
  assumes "query req ''code'' = None \<or> query req ''state'' = None"
    and "query req ''error'' = None"
  shows "yellfront_handler P req m =
    (Json 400 (JObject [(''error'', JString ''Missing required parameters'')]), m)"
  using assms by (auto simp: yellfront_handler_def error_body_def)

theorem missing_params_400_witness:
  "yellfront_handler (example_provider True)
     (example_request [(''state'', QStr ''T'')]) [(''T'', example_pending 0)] =
     (Json 400 (JObject [(''error'', JString ''Missing required parameters'')]),
      [(''T'', example_pending 0)])
   \<and> yellfront_handler (example_provider True)
     (example_request [(''code'', QStr ''4/0Ab'')]) [(''T'', example_pending 0)] =
     (Json 400 (JObject [(''error'', JString ''Missing required parameters'')]),
      [(''T'', example_pending 0)])"
  using
    missing_params_400 [of "example_request [(''state'', QStr ''T'')]"
      "example_provider True" "[(''T'', example_pending 0)]"]
    missing_params_400 [of "example_request [(''code'', QStr ''4/0Ab'')]"
      "example_provider True" "[(''T'', example_pending 0)]"]
  by (simp add: example_request_def)

text \<open>
  Claim C10, as it stands, fails at two inputs. A query can contain an \<open>error\<close>
  parameter that is the empty string (\<open>?error=&code=...&state=T\<close>): the handler tests
  \<open>if (error)\<close>, the empty string is falsy, and the request goes on to the lookup, where
  the live record under \<open>T\<close> is removed (and here, with a failing exchange, the answer
  is 500). And with \<open>?error[toString]=x\<close> the parameter is an object that has no string
  conversion: the template literal of line 101 throws outside the \<open>try\<close>, and no 400 is
  sent.
\<close>

theorem provider_error_consumes_counterexample:
  "query (example_request [(''error'', QStr []), (''code'', QStr ''4/0Ab''), (''state'', QStr ''T'')])
      ''error'' = Some (QStr [])
   \<and> Map_get [(''T'', example_pending 0)] ''T'' = Some (example_pending 0)
   \<and> yellfront_handler (example_provider False)
       (example_request [(''error'', QStr []), (''code'', QStr ''4/0Ab''), (''state'', QStr ''T'')])
       [(''T'', example_pending 0)] =
     (Json 500 (JObject [(''error'', JString ''Failed to exchange authorization code'')]), [])
   \<and> Map_get (snd (yellfront_handler (example_provider False)
       (example_request [(''error'', QStr []), (''code'', QStr ''4/0Ab''), (''state'', QStr ''T'')])
       [(''T'', example_pending 0)])) ''T'' = None
   \<and> yellfront_handler (example_provider False)
       (example_request [(''error'', QObj [(''toString'', QStr ''x'')]),
                         (''code'', QStr ''4/0Ab''), (''state'', QStr ''T'')])
       [(''T'', example_pending 0)] =
     (Uncaught ''TypeError'', [(''T'', example_pending 0)])"
  by (simp add: example_request_def example_provider_def yellfront_handler_def consume_def
      try_exchange_def exchange_failed_def error_body_def)

text \<open>
  Claim C10, amended. A callback whose \<open>error\<close> parameter is truthy (a string that is not
  empty, an array or an object) goes no further than the provider-error branch: there is
  no lookup, the map is unchanged, and every live record, the one named by the request's
  \<open>state\<close> among them, can still be looked up and removed. Whenever the parameter has a
  string conversion (every string has; an array or object has unless an object in it has
  a key \<open>toString\<close>), the answer is 400 with that string in the message. What is sent
  when the conversion throws is left open.
\<close>

theorem provider_error_leaves_cache:
  assumes "truthy_param (query req ''error'')"
  shows "snd (yellfront_handler P req m) = m
    \<and> (to_string_param (query req ''error'') = Some s \<longrightarrow>
         yellfront_handler P req m =
           (Json 400 (JObject [(''error'', JString (''Google OAuth error: '' @ s))]), m))
    \<and> (query req ''error'' = Some (QStr e) \<longrightarrow>
         yellfront_handler P req m =
           (Json 400 (JObject [(''error'', JString (''Google OAuth error: '' @ e))]), m))
    \<and> (Map_get m t = Some p \<longrightarrow>
         consume t (snd (yellfront_handler P req m)) = (Some p, Map_delete t m))"
  using assms
  by (auto simp: yellfront_handler_def error_body_def consume_def split: option.splits)

theorem provider_error_leaves_cache_witness:
  "yellfront_handler (example_provider True)
     (example_request [(''error'', QStr ''access_denied''), (''code'', QStr ''4/0Ab''), (''state'', QStr ''T'')])
     [(''T'', example_pending 0)] =
     (Json 400 (JObject [(''error'', JString ''Google OAuth error: access_denied'')]),
      [(''T'', example_pending 0)])
   \<and> consume ''T'' (snd (yellfront_handler (example_provider True)
     (example_request [(''error'', QStr ''access_denied''), (''code'', QStr ''4/0Ab''), (''state'', QStr ''T'')])
     [(''T'', example_pending 0)])) = (Some (example_pending 0), [])
   \<and> yellfront_handler (example_provider True)
     (example_request [(''error'', QArr [QStr ''a'', QObj [(''k'', QStr ''v'')]]), (''state'', QStr ''T'')])
     [(''T'', example_pending 0)] =
     (Json 400 (JObject [(''error'', JString ''Google OAuth error: a,[object Object]'')]),
      [(''T'', example_pending 0)])"
proof -
  have h: "truthy_param (query (example_request
      [(''error'', QStr ''access_denied''), (''code'', QStr ''4/0Ab''), (''state'', QStr ''T'')]) ''error'')"
    by (simp add: example_request_def)
  have h': "truthy_param (query (example_request
      [(''error'', QArr [QStr ''a'', QObj [(''k'', QStr ''v'')]]), (''state'', QStr ''T'')]) ''error'')"
    by (simp add: example_request_def)
  show ?thesis
    using
      provider_error_leaves_cache [OF h, where m = "[(''T'', example_pending 0)]"
        and t = "''T''" and p = "example_pending 0" and P = "example_provider True"
        and s = "''access_denied''" and e = "''access_denied''"]
      provider_error_leaves_cache [OF h', where m = "[(''T'', example_pending 0)]"
        and P = "example_provider True" and s = "''a,[object Object]''"]
    by (simp add: example_request_def consume_def)
qed

subsection \<open>The refresh handler\<close>

text \<open>
  Claim C9. \<open>req.body\<close> is the object that the JSON body parser leaves. Without a
  \<open>refresh_token\<close> in it the answer is 400 with \<open>{error: 'Missing refresh_token'}\<close>;
  with a truthy one, if the provider's refresh throws the answer is 401, and if it
  returns credentials the answer is 200 with the object of exactly the two fields
  \<open>access_token\<close> and \<open>expiry_date\<close> of the credentials.
\<close>

theorem refresh_responses:
  "(body req ''refresh_token'' = JUndefined \<longrightarrow>
      refresh_handler P req = Json 400 (JObject [(''error'', JString ''Missing refresh_token'')]))
   \<and> (truthy_js (body req ''refresh_token'') \<longrightarrow>
        refreshAccessToken P (body req ''refresh_token'') = Inl err \<longrightarrow>
      refresh_handler P req = Json 401 (JObject [(''error'', JString ''Failed to refresh token'')]))
   \<and> (truthy_js (body req ''refresh_token'') \<longrightarrow>
        refreshAccessToken P (body req ''refresh_token'') = Inr credentials \<longrightarrow>
      refresh_handler P req =
        Json 200 (JObject [(''access_token'', access_token credentials),
                           (''expiry_date'', expiry_date credentials)]))"
  by (simp add: refresh_handler_def error_body_def)

theorem refresh_responses_witness:
  "refresh_handler (example_provider True) (example_post []) =
     Json 400 (JObject [(''error'', JString ''Missing refresh_token'')])
   \<and> refresh_handler (example_provider False) (example_post [(''refresh_token'', JString ''1//0g'')]) =
     Json 401 (JObject [(''error'', JString ''Failed to refresh token'')])
   \<and> refresh_handler (example_provider True) (example_post [(''refresh_token'', JString ''1//0g'')]) =
     Json 200 (JObject [(''access_token'', JString ''ya29.a0''),
                        (''expiry_date'', JNumber 1700003600000)])"
  using
    refresh_responses [of "example_post []" "example_provider True"]
    refresh_responses [of "example_post [(''refresh_token'', JString ''1//0g'')]"
      "example_provider False" "''invalid_grant''"]
    refresh_responses [of "example_post [(''refresh_token'', JString ''1//0g'')]"
      "example_provider True" _ example_tokens]
  by (simp add: example_post_def example_provider_def example_tokens_def)

end
